theory Spec2Isabelle
  imports Complex_Main
begin

section \<open>Values and the JavaScript runtime\<close>

text \<open>
  JSON values as they arrive in tool inputs and request bodies. Numbers are JavaScript
  numbers; the model uses rationals, which agree with doubles on the comparisons and the
  subtraction the code performs for magnitudes below \<open>2^53\<close>. Strings are lists of
  code units below 256.
\<close>

datatype json =
    JNull
  | JBool bool
  | JNum rat
  | JStr string
  | JArr "json list"
  | JObj "(string \<times> json) list"

text \<open>
  A tool input is a JSON object (\<open>Record<string, unknown>\<close>): an association list
  with one entry per key. \<open>input.key\<close> is \<open>map_of input key\<close>, \<open>None\<close> standing
  for \<open>undefined\<close>.
\<close>

type_synonym tool_input = "(string \<times> json) list"

section \<open>Messages of the sampling protocol\<close>

text \<open>
  A content block is plain text, a tool invocation (\<open>tool_use\<close>: identifier, name,
  input), a tool result (\<open>tool_result\<close>: identifier of the invocation, text segments) or
  a block of another type (image, audio), kept by its type tag. The content of a message
  is one block or an array of blocks.
\<close>

datatype ContentBlock =
    TextContent string
  | ToolUseContent (tu_id: string) (tu_name: string) (tu_input: tool_input)
  | ToolResultContent string "string list"
  | OtherContent string

datatype Content = Single ContentBlock | Array "ContentBlock list"

datatype Role = User | Assistant

record SamplingMessage =
  role :: Role
  content :: Content

datatype ToolChoiceMode = ModeAuto | ModeRequired | ModeNone

record Tool =
  tool_name :: string
  tool_description :: string
  tool_required :: "string list"

text \<open>
  The parameters of a \<open>sampling/createMessage\<close> request; \<open>None\<close> is a field left
  \<open>undefined\<close>.
\<close>

record CreateMessageRequest =
  messages :: "SamplingMessage list"
  req_systemPrompt :: string
  req_maxTokens :: rat
  tools :: "Tool list option"
  req_toolChoice :: "ToolChoiceMode option"

record CreateMessageResult =
  res_stopReason :: "string option"
  res_content :: Content

text \<open>
  The built-ins of the JavaScript runtime that \<open>trigger-enhanced-sampling.ts\<close> calls.
  They are not code of the repository and are taken as parameters:
  \<^item> \<open>String_js v\<close> is \<open>String(v)\<close>, \<open>None\<close> when the conversion throws (an
    object whose \<open>toString\<close> property is not callable);
  \<^item> \<open>evalFunction e\<close> is the text \<open>${result}\<close> of
    \<open>Function(`"use strict"; return (${e})`)()\<close>, \<open>None\<close> when building or calling
    that function throws;
  \<^item> \<open>toLocaleString tz\<close> is \<open>new Date().toLocaleString("en-US", {timeZone: tz})\<close>,
    \<open>None\<close> when it throws (an unknown time zone);
  \<^item> \<open>randomFloor n k\<close> is \<open>Math.floor(Math.random() * k)\<close> at the \<open>n\<close>-th call of
    \<open>Math.random()\<close>: the floor of the product as the runtime computes it on doubles;
  \<^item> \<open>JSON_stringify v\<close> is \<open>JSON.stringify(v)\<close>;
  \<^item> \<open>stringifyResult r\<close> is \<open>JSON.stringify(r, null, 2)\<close> of a sampling result.
  The draws of \<open>Math.random()\<close> are counted from the start of one tool call.
\<close>

record runtime =
  String_js :: "json option \<Rightarrow> string option"
  evalFunction :: "string \<Rightarrow> string option"
  toLocaleString :: "string \<Rightarrow> string option"
  randomFloor :: "nat \<Rightarrow> nat \<Rightarrow> int"
  JSON_stringify :: "json \<Rightarrow> string"
  stringifyResult :: "CreateMessageResult \<Rightarrow> string"

section \<open>The tool executor (\<open>executeMockTool\<close>)\<close>

text \<open>The character class of \<open>/^[\d+\-*/().%\s]+$/\<close>.\<close>

definition isDigit :: "char \<Rightarrow> bool" where
  "isDigit c = ((48::nat) \<le> of_char c \<and> of_char c \<le> (57::nat))"

definition isWhitespace :: "char \<Rightarrow> bool" where
  "isWhitespace c = (of_char c \<in> {9, 10, 11, 12, 13, 32, 160::nat})"

definition allowedChar :: "char \<Rightarrow> bool" where
  "allowedChar c =
     (isDigit c \<or> c \<in> set ''+-*/().%'' \<or> isWhitespace c)"

text \<open>The regular expression test: one or more characters, all of the class.\<close>

definition validExpression :: "string \<Rightarrow> bool" where
  "validExpression expr = (expr \<noteq> [] \<and> list_all allowedChar expr)"

datatype js_exception = TypeError | RangeError | EvalError | SdkError

text \<open>
  The body of the \<open>try\<close> block of the \<open>calculate\<close> case. Each of
  \<open>String(input.expression)\<close> and the evaluation may throw.
\<close>

definition calculateTry :: "runtime \<Rightarrow> tool_input \<Rightarrow> js_exception + string" where
  "calculateTry rt inp =
     (case String_js rt (map_of inp ''expression'') of
        None \<Rightarrow> Inl TypeError
      | Some expr \<Rightarrow>
          if \<not> validExpression expr
          then Inr ''Error: Invalid expression. Only basic math operations allowed.''
          else (case evalFunction rt expr of
                  None \<Rightarrow> Inl EvalError
                | Some result \<Rightarrow> Inr (''Result: '' @ result)))"

text \<open>The body of the \<open>try\<close> block of the \<open>get_time\<close> case.\<close>

definition getTimeTry :: "runtime \<Rightarrow> tool_input \<Rightarrow> js_exception + string" where
  "getTimeTry rt inp =
     (case String_js rt (map_of inp ''timezone'') of
        None \<Rightarrow> Inl TypeError
      | Some timezone \<Rightarrow>
          (case toLocaleString rt timezone of
             None \<Rightarrow> Inl RangeError
           | Some s \<Rightarrow> Inr s))"

definition conditions :: "string list" where
  "conditions = [''sunny'', ''cloudy'', ''rainy'', ''partly cloudy'']"

text \<open>
  The object given to \<open>JSON.stringify\<close> in the \<open>get_weather\<close> case. A property whose
  value is \<open>undefined\<close> is left out, as \<open>JSON.stringify\<close> does. The three draws of
  \<open>Math.random()\<close> are numbers \<open>n\<close>, \<open>n + 1\<close> and \<open>n + 2\<close>.
\<close>

definition weatherObject :: "runtime \<Rightarrow> nat \<Rightarrow> tool_input \<Rightarrow> json" where
  "weatherObject rt n inp =
     (let temperature = randomFloor rt n 30 + 5;
          idx = randomFloor rt (n + 1) (length conditions);
          humidity = randomFloor rt (n + 2) 60 + 40
      in JObj
          ((case map_of inp ''city'' of None \<Rightarrow> [] | Some c \<Rightarrow> [(''city'', c)]) @
           [(''temperature'', JNum (of_int temperature))] @
           (if 0 \<le> idx \<and> idx < int (length conditions)
            then [(''conditions'', JStr (conditions ! nat idx))] else []) @
           [(''humidity'', JNum (of_int humidity))]))"

text \<open>
  \<open>executeMockTool\<close> returns its text together with the number of the next draw of
  \<open>Math.random()\<close>.
\<close>

definition executeMockTool :: "runtime \<Rightarrow> nat \<Rightarrow> string \<Rightarrow> tool_input \<Rightarrow> string \<times> nat" where
  "executeMockTool rt n name inp =
     (if name = ''get_weather'' then
        (JSON_stringify rt (weatherObject rt n inp), n + 3)
      else if name = ''calculate'' then
        (case calculateTry rt inp of
           Inr text \<Rightarrow> (text, n)
         | Inl _ \<Rightarrow> (''Error: Could not evaluate expression'', n))
      else if name = ''get_time'' then
        (case getTimeTry rt inp of
           Inr text \<Rightarrow> (text, n)
         | Inl _ \<Rightarrow> (''Error: Invalid timezone'', n))
      else (''Unknown tool: '' @ name, n))"

section \<open>The agent loop (\<open>trigger-enhanced-sampling\<close>)\<close>

text \<open>
  The arguments after \<open>TriggerEnhancedSamplingSchema.parse\<close>: defaults are filled in,
  \<open>systemPrompt\<close> is optional, \<open>maxTokens\<close> and \<open>maxIterations\<close> are
  \<open>z.number()\<close>, so any number and not only an integer.
\<close>

record Args =
  prompt :: string
  maxTokens :: rat
  systemPrompt :: "string option"
  includeTools :: bool
  toolChoice :: ToolChoiceMode
  maxIterations :: rat

definition sampleTools :: "Tool list" where
  "sampleTools =
     [\<lparr> tool_name = ''get_weather'', tool_description = ''Get current weather for a city'',
        tool_required = [''city''] \<rparr>,
      \<lparr> tool_name = ''calculate'', tool_description = ''Perform a mathematical calculation'',
        tool_required = [''expression''] \<rparr>,
      \<lparr> tool_name = ''get_time'', tool_description = ''Get current time in a timezone'',
        tool_required = [''timezone''] \<rparr>]"

record ToolCall =
  call_id :: string
  call_name :: string
  call_input :: tool_input

fun asToolUse :: "ContentBlock \<Rightarrow> ToolCall option" where
  "asToolUse (ToolUseContent i n inp) = Some \<lparr> call_id = i, call_name = n, call_input = inp \<rparr>"
| "asToolUse _ = None"

fun extractToolCalls :: "Content \<Rightarrow> ToolCall list" where
  "extractToolCalls (Array cs) = List.map_filter asToolUse cs"
| "extractToolCalls (Single c) = (case asToolUse c of Some tc \<Rightarrow> [tc] | None \<Rightarrow> [])"

record ToolCallResult =
  tc_name :: string
  tc_input :: tool_input
  tc_result :: string

record IterationResult =
  iteration :: nat
  stopReason :: "string option"
  toolCalls :: "ToolCallResult list option"
  textResponse :: "string option"

datatype error = SendRequestRejected

text \<open>
  The state of one tool call: the conversation, the per-iteration report, the requests
  sent so far (in order), the number of the next draw of \<open>Math.random()\<close>, and the
  exception that ended the call, if any.
\<close>

record LoopState =
  conversationHistory :: "SamplingMessage list"
  iterationResults :: "IterationResult list"
  sent :: "CreateMessageRequest list"
  rnd :: nat
  failure :: "error option"

text \<open>
  The counterpart behind \<open>extra.sendRequest\<close>: given the number of requests sent before
  and the request, the validated result, or \<open>None\<close> when the promise rejects (transport
  error, error response, or a result that fails the result schema).
\<close>

type_synonym client = "nat \<Rightarrow> CreateMessageRequest \<Rightarrow> CreateMessageResult option"

text \<open>\<open>systemPrompt || fallback\<close>: an absent or empty prompt gives the fallback.\<close>

definition orDefault :: "string option \<Rightarrow> string \<Rightarrow> string" where
  "orDefault v d = (case v of None \<Rightarrow> d | Some s \<Rightarrow> if s = [] then d else s)"

definition lastIteration :: "Args \<Rightarrow> nat \<Rightarrow> bool" where
  "lastIteration a i = (of_nat i = maxIterations a - 1)"

definition buildRequest :: "Args \<Rightarrow> nat \<Rightarrow> SamplingMessage list \<Rightarrow> CreateMessageRequest" where
  "buildRequest a i history =
     (let currentToolChoice = (if lastIteration a i then ModeNone else toolChoice a) in
      \<lparr> messages = history,
        req_systemPrompt = orDefault (systemPrompt a)
          ''You are a helpful assistant with access to tools. Use them when needed to answer questions accurately.'',
        req_maxTokens = maxTokens a,
        tools = (if lastIteration a i then None else Some sampleTools),
        req_toolChoice = (if lastIteration a i then None else Some currentToolChoice) \<rparr>)"

text \<open>
  The loop over \<open>toolCalls\<close>; the two accumulators are \<open>toolResults\<close> and
  \<open>toolResultContent\<close>.
\<close>

fun runToolCalls ::
  "runtime \<Rightarrow> nat \<Rightarrow> ToolCall list \<Rightarrow> ToolCallResult list \<Rightarrow> ContentBlock list
     \<Rightarrow> ToolCallResult list \<times> ContentBlock list \<times> nat" where
  "runToolCalls rt n [] toolResults toolResultContent = (toolResults, toolResultContent, n)"
| "runToolCalls rt n (toolCall # rest) toolResults toolResultContent =
     (case executeMockTool rt n (call_name toolCall) (call_input toolCall) of
        (toolResult, n') \<Rightarrow>
          runToolCalls rt n' rest
            (toolResults @ [\<lparr> tc_name = call_name toolCall, tc_input = call_input toolCall,
                               tc_result = toolResult \<rparr>])
            (toolResultContent @ [ToolResultContent (call_id toolCall) [toolResult]]))"

fun blockText :: "ContentBlock \<Rightarrow> string option" where
  "blockText (TextContent t) = Some t"
| "blockText _ = None"

fun join :: "string \<Rightarrow> string list \<Rightarrow> string" where
  "join sep [] = []"
| "join sep [x] = x"
| "join sep (x # y # ys) = x @ sep @ join sep (y # ys)"

fun extractText :: "Content \<Rightarrow> string" where
  "extractText (Array cs) = join [CHR 0x0A] (List.map_filter blockText cs)"
| "extractText (Single c) = (case blockText c of Some t \<Rightarrow> t | None \<Rightarrow> [])"

datatype flow = Continue | Break

text \<open>The end of the conversation: the text response is recorded and the loop breaks.\<close>

definition endConversation :: "IterationResult \<Rightarrow> CreateMessageResult \<Rightarrow> LoopState \<Rightarrow> flow \<times> LoopState" where
  "endConversation iterationResult result st =
     (Break, st\<lparr> iterationResults := iterationResults st @
        [iterationResult\<lparr> textResponse := Some (extractText (res_content result)) \<rparr>] \<rparr>)"

text \<open>The body of the loop after the result of \<open>sendRequest\<close> arrived.\<close>

definition handleResult :: "runtime \<Rightarrow> nat \<Rightarrow> CreateMessageResult \<Rightarrow> LoopState \<Rightarrow> flow \<times> LoopState" where
  "handleResult rt i result st =
     (let iterationResult = \<lparr> iteration = i + 1, stopReason = res_stopReason result,
                               toolCalls = None, textResponse = None \<rparr> in
      if res_stopReason result = Some ''toolUse'' then
        (let calls = extractToolCalls (res_content result) in
         if length calls > 0 then
           (case runToolCalls rt (rnd st) calls [] [] of
              (toolResults, toolResultContent, n') \<Rightarrow>
                (Continue,
                 st\<lparr> conversationHistory := conversationHistory st @
                        [\<lparr> role = Assistant, content = res_content result \<rparr>,
                         \<lparr> role = User, content = Array toolResultContent \<rparr>],
                     iterationResults := iterationResults st @
                        [iterationResult\<lparr> toolCalls := Some toolResults \<rparr>],
                     rnd := n' \<rparr>))
         else endConversation iterationResult result st)
      else endConversation iterationResult result st)"

text \<open>
  \<open>for (let iteration = 0; iteration < maxIterations; iteration++)\<close>. A rejected
  \<open>sendRequest\<close> ends the call with the exception.
\<close>

function agentLoop :: "runtime \<Rightarrow> client \<Rightarrow> Args \<Rightarrow> nat \<Rightarrow> LoopState \<Rightarrow> LoopState" where
  "agentLoop rt cl a i st =
     (if of_nat i < maxIterations a then
        (let request = buildRequest a i (conversationHistory st);
             st1 = st\<lparr> sent := sent st @ [request] \<rparr> in
         case cl (length (sent st)) request of
           None \<Rightarrow> st1\<lparr> failure := Some SendRequestRejected \<rparr>
         | Some result \<Rightarrow>
             (case handleResult rt i result st1 of
                (Continue, st2) \<Rightarrow> agentLoop rt cl a (Suc i) st2
              | (Break, st2) \<Rightarrow> st2))
      else st)"
  by pat_completeness auto
termination
proof (relation "measure (\<lambda>(rt, cl, a, i, st). nat \<lceil>maxIterations a\<rceil> - i)")
  show "wf (measure (\<lambda>(rt, cl, a, i, st). nat \<lceil>maxIterations a\<rceil> - i))" by simp
next
  fix rt :: runtime and cl :: client and a :: Args and i :: nat and st :: LoopState
  assume lt: "of_nat i < maxIterations a"
  have "(of_nat i :: rat) < of_int \<lceil>maxIterations a\<rceil>"
    using lt le_of_int_ceiling [of "maxIterations a"] by (rule less_le_trans)
  then have "int i < \<lceil>maxIterations a\<rceil>"
    by (metis of_int_less_iff of_int_of_nat_eq)
  then have "i < nat \<lceil>maxIterations a\<rceil>" by linarith
  then show "\<And>x y z w v. ((rt, cl, a, Suc i, v), (rt, cl, a, i, st))
       \<in> measure (\<lambda>(rt, cl, a, i, st). nat \<lceil>maxIterations a\<rceil> - i)"
    by simp
qed

definition initialState :: "Args \<Rightarrow> LoopState" where
  "initialState a =
     \<lparr> conversationHistory = [\<lparr> role = User, content = Single (TextContent (prompt a)) \<rparr>],
       iterationResults = [], sent = [], rnd = 0, failure = None \<rparr>"

definition runAgentLoop :: "runtime \<Rightarrow> client \<Rightarrow> Args \<Rightarrow> LoopState" where
  "runAgentLoop rt cl a = agentLoop rt cl a 0 (initialState a)"

subsection \<open>The report\<close>

definition digitChar :: "nat \<Rightarrow> char" where
  "digitChar d = char_of (48 + d)"

fun showNat :: "nat \<Rightarrow> string" where
  "showNat n = (if n < 10 then [digitChar n] else showNat (n div 10) @ [digitChar (n mod 10)])"

fun modeText :: "ToolChoiceMode \<Rightarrow> string" where
  "modeText ModeAuto = ''auto''"
| "modeText ModeRequired = ''required''"
| "modeText ModeNone = ''none''"

text \<open>\<open>lastResult?.textResponse || "No final response"\<close>.\<close>

definition finalResponse :: "IterationResult list \<Rightarrow> string" where
  "finalResponse rs =
     orDefault (if rs = [] then None else textResponse (last rs)) ''No final response''"

definition toolCallLines :: "runtime \<Rightarrow> ToolCallResult \<Rightarrow> string list" where
  "toolCallLines rt tc =
     [''    - '' @ tc_name tc @ ''('' @ JSON_stringify rt (JObj (tc_input tc)) @ '')'',
      ''      Result: '' @ tc_result tc]"

definition iterationLines :: "runtime \<Rightarrow> IterationResult \<Rightarrow> string" where
  "iterationLines rt r =
     join [CHR 0x0A]
       ([''Iteration '' @ showNat (iteration r) @ '':'',
         ''  Stop Reason: '' @ orDefault (stopReason r) ''N/A''] @
        (case toolCalls r of
           None \<Rightarrow> []
         | Some tcs \<Rightarrow> ''  Tool Calls:'' # concat (map (toolCallLines rt) tcs)) @
        (case textResponse r of
           None \<Rightarrow> []
         | Some t \<Rightarrow>
             if t = [] then []
             else [''  Response: '' @ take 200 t @ (if length t > 200 then ''...'' else [])]))"

definition reportText :: "runtime \<Rightarrow> Args \<Rightarrow> IterationResult list \<Rightarrow> string" where
  "reportText rt a rs =
     join [CHR 0x0A]
       ([''=== Enhanced Sampling Agent Loop Result ==='',
         [],
         ''Total Iterations: '' @ showNat (length rs),
         ''Tool Choice Mode: '' @ modeText (toolChoice a),
         [],
         ''--- Iteration Details ---''] @
        map (iterationLines rt) rs @
        [[],
         ''--- Final Response ---'',
         finalResponse rs])"

record CallToolResult =
  result_text :: string
  isError :: bool

text \<open>
  The callback registered for the tool: its result (or the exception it throws) and
  the sampling requests it sent, in order. The callback sets no \<open>isError\<close> flag.
\<close>

definition triggerEnhancedSampling ::
  "runtime \<Rightarrow> client \<Rightarrow> Args \<Rightarrow> (error + CallToolResult) \<times> CreateMessageRequest list" where
  "triggerEnhancedSampling rt cl a =
     (if \<not> includeTools a then
        (let request = \<lparr> messages = [\<lparr> role = User, content = Single (TextContent (prompt a)) \<rparr>],
                         req_systemPrompt = orDefault (systemPrompt a) ''You are a helpful assistant.'',
                         req_maxTokens = maxTokens a,
                         tools = None, req_toolChoice = None \<rparr> in
         case cl 0 request of
           None \<Rightarrow> (Inl SendRequestRejected, [request])
         | Some result \<Rightarrow>
             (Inr \<lparr> result_text = ''Sampling Result (no tools):'' @ [CHR 0x0A] @ stringifyResult rt result,
                    isError = False \<rparr>, [request]))
      else
        (let st = runAgentLoop rt cl a in
         case failure st of
           Some e \<Rightarrow> (Inl e, sent st)
         | None \<Rightarrow>
             (Inr \<lparr> result_text = reportText rt a (iterationResults st), isError = False \<rparr>,
              sent st)))"

section \<open>Registration of the tool\<close>

text \<open>
  What \<open>server.server.getClientCapabilities()\<close> reports: \<open>None\<close> before the client
  has initialised, otherwise the capabilities, whose \<open>sampling\<close> entry may be absent.
  \<open>sampling_tools\<close> says whether the entry declares tool support.
\<close>

record SamplingCapability =
  sampling_tools :: bool

record ClientCapabilities =
  sampling :: "SamplingCapability option"

type_synonym tool_callback =
  "runtime \<Rightarrow> client \<Rightarrow> Args \<Rightarrow> (error + CallToolResult) \<times> CreateMessageRequest list"

type_synonym tool_registry = "string \<rightharpoonup> tool_callback"

definition toolName :: string where
  "toolName = ''trigger-enhanced-sampling''"

definition registerTriggerEnhancedSamplingTool ::
  "ClientCapabilities option \<Rightarrow> tool_registry \<Rightarrow> tool_registry" where
  "registerTriggerEnhancedSamplingTool caps reg =
     (let clientCapabilities = (case caps of None \<Rightarrow> \<lparr> sampling = None \<rparr> | Some c \<Rightarrow> c);
          clientSupportsSampling = (sampling clientCapabilities \<noteq> None)
      in if \<not> clientSupportsSampling then reg
         else reg(toolName \<mapsto> triggerEnhancedSampling))"

text \<open>
  A call of a tool by name runs the callback registered under that name. \<open>None\<close>: no
  callback is registered, and the call is answered by the protocol library, not by code
  of this repository.
\<close>

definition invokeTool ::
  "tool_registry \<Rightarrow> string \<Rightarrow> runtime \<Rightarrow> client \<Rightarrow> Args
     \<Rightarrow> ((error + CallToolResult) \<times> CreateMessageRequest list) option" where
  "invokeTool reg name rt cl a = map_option (\<lambda>callback. callback rt cl a) (reg name)"

section \<open>The transports\<close>

text \<open>
  A transport handle is an object reference. The \<open>transports\<close> map of either variant
  sends session identifiers to handles. A handler is modelled by the map it leaves, the
  effects it performs, in order, and the exception with which its promise rejects, if
  any.
\<close>

type_synonym handle = nat

type_synonym transports = "string \<rightharpoonup> handle"

record ErrorBody =
  jsonrpc :: string
  error_code :: int
  error_message :: string
  error_id :: "json option"

text \<open>
  \<open>SendJson\<close> is \<open>res.status(n).json\<close> of a JSON-RPC error body, \<open>SendError\<close> is
  \<open>res.status(n).json({error, error_description})\<close>, \<open>SetHeader\<close> is \<open>res.set\<close>,
  \<open>Unregister\<close> is \<open>transports.delete\<close> and \<open>Cleanup\<close> is the \<open>cleanup\<close> of
  \<open>createServer\<close>.
\<close>

datatype effect =
    CreateServer
  | NewTransport handle
  | SetOnClose handle
  | ConnectStart handle
  | Connected handle
  | HandleRequest handle
  | HandlePostMessage handle
  | Register string handle
  | Unregister string
  | Cleanup string
  | SendJson nat ErrorBody
  | SetHeader string string
  | SendError nat string "string option"

fun statusOf :: "effect \<Rightarrow> nat option" where
  "statusOf (SendJson n b) = Some n"
| "statusOf (SendError n e d) = Some n"
| "statusOf _ = None"

record HandlerResult =
  new_transports :: transports
  effects :: "effect list"
  rejected :: "js_exception option"

text \<open>
  The protocol library behind both variants, a parameter. Of
  \<open>transport.handleRequest(req, res)\<close> the handlers can see whether it calls
  \<open>onsessioninitialized\<close> (and with which identifier), whether it closes the transport,
  which runs the \<open>onclose\<close> handler of the server, whether it throws, and whether it has
  sent headers by then.
\<close>

record HandleOutcome =
  initializedAs :: "string option"
  closed :: bool
  threw :: bool
  headersSent :: bool

text \<open>
  The request as the handlers read it: the \<open>mcp-session-id\<close> header and the
  \<open>sessionId\<close> query parameter, \<open>None\<close> when absent.
\<close>

record HttpRequest =
  mcp_session_id :: "string option"
  query_sessionId :: "string option"

text \<open>
  Of the library: whether \<open>server.connect(transport)\<close> resolves, whether headers were
  sent when it rejects, \<open>handleRequest\<close>, and the \<open>sessionId\<close> property of a transport
  as the \<open>onclose\<close> handler reads it.
\<close>

record sdk =
  connect :: "handle \<Rightarrow> bool"
  connectSentHeaders :: "handle \<Rightarrow> bool"
  handleRequest :: "handle \<Rightarrow> HttpRequest \<Rightarrow> HandleOutcome"
  sessionIdOf :: "handle \<Rightarrow> string option"

text \<open>JavaScript truthiness of a \<open>string | undefined\<close>: the empty string is falsy.\<close>

definition truthy :: "string option \<Rightarrow> bool" where
  "truthy v = (case v of None \<Rightarrow> False | Some s \<Rightarrow> s \<noteq> [])"

text \<open>\<open>transports.get(sessionId)\<close>, also for an \<open>undefined\<close> key.\<close>

definition getTransport :: "transports \<Rightarrow> string option \<Rightarrow> handle option" where
  "getTransport ts v = (case v of None \<Rightarrow> None | Some s \<Rightarrow> ts s)"

subsection \<open>Streamable HTTP (\<open>/mcp\<close>)\<close>

text \<open>
  \<open>req.body\<close>: neither transport file mounts a body parser before its routes, so
  Express leaves the property \<open>undefined\<close> for every request.
\<close>

definition requestBody :: "HttpRequest \<Rightarrow> json option" where
  "requestBody req = None"

text \<open>\<open>req?.body?.id\<close>.\<close>

definition bodyId :: "HttpRequest \<Rightarrow> json option" where
  "bodyId req =
     (case requestBody req of
        Some (JObj members) \<Rightarrow> map_of members ''id''
      | _ \<Rightarrow> None)"

definition badRequest :: "HttpRequest \<Rightarrow> effect" where
  "badRequest req =
     SendJson 400 \<lparr> jsonrpc = ''2.0'', error_code = - 32000,
                    error_message = ''Bad Request: No valid session ID provided'',
                    error_id = bodyId req \<rparr>"

definition internalError :: "string \<Rightarrow> HttpRequest \<Rightarrow> effect" where
  "internalError msg req =
     SendJson 500 \<lparr> jsonrpc = ''2.0'', error_code = - 32603, error_message = msg,
                    error_id = bodyId req \<rparr>"

text \<open>
  The \<open>onclose\<close> handler that \<open>app.post("/mcp")\<close> gives the server of every transport
  it creates.
\<close>

definition onclose_mcp :: "sdk \<Rightarrow> transports \<Rightarrow> handle \<Rightarrow> transports \<times> effect list" where
  "onclose_mcp lib ts transport =
     (case sessionIdOf lib transport of
        None \<Rightarrow> (ts, [])
      | Some sid \<Rightarrow>
          if sid \<noteq> [] \<and> ts sid \<noteq> None
          then (ts(sid := None), [Unregister sid, Cleanup sid])
          else (ts, []))"

text \<open>
  \<open>transport.handleRequest(req, res)\<close> with the two callbacks of the repository that
  it may run: \<open>onsessioninitialized\<close>, which stores the transport under the identifier
  it is called with, and \<open>onclose\<close>.
\<close>

definition delegate :: "sdk \<Rightarrow> transports \<Rightarrow> handle \<Rightarrow> HttpRequest \<Rightarrow> transports \<times> effect list" where
  "delegate lib ts transport req =
     (let out = handleRequest lib transport req;
          ts1 = (case initializedAs out of None \<Rightarrow> ts | Some sid \<Rightarrow> ts(sid \<mapsto> transport));
          e1 = (case initializedAs out of None \<Rightarrow> [] | Some sid \<Rightarrow> [Register sid transport])
      in if closed out
         then (case onclose_mcp lib ts1 transport of
                 (ts2, e2) \<Rightarrow> (ts2, [HandleRequest transport] @ e1 @ e2))
         else (ts1, [HandleRequest transport] @ e1))"

text \<open>
  \<open>await transport.handleRequest(req, res)\<close> inside a \<open>try\<close> whose \<open>catch\<close> answers 500
  unless headers were sent.
\<close>

definition handleRequestCaught :: "sdk \<Rightarrow> string \<Rightarrow> transports \<Rightarrow> handle \<Rightarrow> HttpRequest \<Rightarrow> HandlerResult" where
  "handleRequestCaught lib msg ts transport req =
     (let out = handleRequest lib transport req in
      case delegate lib ts transport req of
        (ts', es) \<Rightarrow>
          \<lparr> new_transports = ts',
            effects = es @
              (if threw out \<and> \<not> headersSent out then [internalError msg req] else []),
            rejected = None \<rparr>)"

text \<open>
  \<open>app.post("/mcp")\<close>. \<open>fresh\<close> is the reference of the transport that
  \<open>new StreamableHTTPServerTransport\<close> would create.
\<close>

definition post_mcp :: "sdk \<Rightarrow> handle \<Rightarrow> transports \<Rightarrow> HttpRequest \<Rightarrow> HandlerResult" where
  "post_mcp lib fresh ts req =
     (let sessionId = mcp_session_id req in
      case (if truthy sessionId then getTransport ts sessionId else None) of
        Some transport \<Rightarrow>
          handleRequestCaught lib ''Internal server error'' ts transport req
      | None \<Rightarrow>
          if \<not> truthy sessionId then
            (let start = [CreateServer, NewTransport fresh, SetOnClose fresh, ConnectStart fresh] in
             if \<not> connect lib fresh then
               \<lparr> new_transports = ts,
                 effects = start @
                   (if \<not> connectSentHeaders lib fresh
                    then [internalError ''Internal server error'' req] else []),
                 rejected = None \<rparr>
             else
               (let r = handleRequestCaught lib ''Internal server error'' ts fresh req in
                r\<lparr> effects := start @ [Connected fresh] @ effects r \<rparr>))
          else
            \<lparr> new_transports = ts, effects = [badRequest req], rejected = None \<rparr>)"

text \<open>\<open>app.get("/mcp")\<close>: the delegated call is not in a \<open>try\<close>.\<close>

definition get_mcp :: "sdk \<Rightarrow> transports \<Rightarrow> HttpRequest \<Rightarrow> HandlerResult" where
  "get_mcp lib ts req =
     (let sessionId = mcp_session_id req in
      case (if truthy sessionId then getTransport ts sessionId else None) of
        None \<Rightarrow> \<lparr> new_transports = ts, effects = [badRequest req], rejected = None \<rparr>
      | Some transport \<Rightarrow>
          (case delegate lib ts transport req of
             (ts', es) \<Rightarrow>
               \<lparr> new_transports = ts', effects = es,
                 rejected = (if threw (handleRequest lib transport req)
                             then Some SdkError else None) \<rparr>))"

text \<open>\<open>app.delete("/mcp")\<close>.\<close>

definition delete_mcp :: "sdk \<Rightarrow> transports \<Rightarrow> HttpRequest \<Rightarrow> HandlerResult" where
  "delete_mcp lib ts req =
     (let sessionId = mcp_session_id req in
      case (if truthy sessionId then getTransport ts sessionId else None) of
        None \<Rightarrow> \<lparr> new_transports = ts, effects = [badRequest req], rejected = None \<rparr>
      | Some transport \<Rightarrow>
          handleRequestCaught lib ''Error handling session termination'' ts transport req)"

subsection \<open>SSE (\<open>/sse\<close> and \<open>/message\<close>)\<close>

text \<open>
  \<open>app.get("/sse")\<close>. \<open>fresh\<close> is the reference of the transport that
  \<open>new SSEServerTransport\<close> would create and \<open>newId\<close> the session identifier it mints.
  With a truthy \<open>sessionId\<close> query parameter the handler looks the transport up and reads
  its \<open>sessionId\<close> for a log line: a \<open>TypeError\<close> when the lookup gave \<open>undefined\<close>,
  and otherwise nothing more.
\<close>

definition get_sse :: "sdk \<Rightarrow> handle \<Rightarrow> string \<Rightarrow> transports \<Rightarrow> HttpRequest \<Rightarrow> HandlerResult" where
  "get_sse lib fresh newId ts req =
     (if truthy (query_sessionId req) then
        (case getTransport ts (query_sessionId req) of
           None \<Rightarrow> \<lparr> new_transports = ts, effects = [CreateServer], rejected = Some TypeError \<rparr>
         | Some transport \<Rightarrow>
             \<lparr> new_transports = ts, effects = [CreateServer], rejected = None \<rparr>)
      else
        (let start = [CreateServer, NewTransport fresh, Register newId fresh, ConnectStart fresh] in
         if \<not> connect lib fresh then
           \<lparr> new_transports = ts(newId \<mapsto> fresh), effects = start, rejected = Some SdkError \<rparr>
         else
           \<lparr> new_transports = ts(newId \<mapsto> fresh),
             effects = start @ [Connected fresh, SetOnClose fresh],
             rejected = None \<rparr>))"

text \<open>The \<open>onclose\<close> handler that \<open>app.get("/sse")\<close> gives the server of a new session.\<close>

definition onclose_sse :: "transports \<Rightarrow> string \<Rightarrow> transports \<times> effect list" where
  "onclose_sse ts sessionId = (ts(sessionId := None), [Unregister sessionId, Cleanup sessionId])"

text \<open>\<open>app.post("/message")\<close>.\<close>

definition post_message :: "transports \<Rightarrow> HttpRequest \<Rightarrow> HandlerResult" where
  "post_message ts req =
     (case getTransport ts (query_sessionId req) of
        Some transport \<Rightarrow>
          \<lparr> new_transports = ts, effects = [HandlePostMessage transport], rejected = None \<rparr>
      | None \<Rightarrow>
          \<lparr> new_transports = ts,
            effects = [SendError 400 ''invalid_session''
                         (Some ''No valid session found for the provided session ID'')],
            rejected = None \<rparr>)"

subsection \<open>The error handlers\<close>

text \<open>
  Both apps mount \<open>handleAuthError\<close> and \<open>handleGeneralError\<close> after their routes. An
  error object is read through its \<open>name\<close>, \<open>code\<close> and \<open>message\<close>; of
  \<open>oauthConfig\<close> the handlers read \<open>mcpServerUrl\<close> and \<open>nodeEnv\<close>.
\<close>

record js_error =
  err_name :: string
  err_code :: "string option"
  err_message :: "string option"

record Config =
  mcpServerUrl :: string
  nodeEnv :: string

text \<open>\<open>s.includes(needle)\<close>.\<close>

definition includesStr :: "string \<Rightarrow> string \<Rightarrow> bool" where
  "includesStr s needle =
     list_ex (\<lambda>i. take (length needle) (drop i s) = needle) [0 ..< Suc (length s)]"

definition buildWwwAuthenticateHeader :: "Config \<Rightarrow> string option \<Rightarrow> string option \<Rightarrow> string" where
  "buildWwwAuthenticateHeader cfg err errorDescription =
     (let resourceMetadataUrl = mcpServerUrl cfg @ ''/.well-known/oauth-protected-resource'';
          v0 = ''Bearer resource_metadata='' @ [CHR 0x22] @ resourceMetadataUrl @ [CHR 0x22];
          v1 = (case err of
                  None \<Rightarrow> v0
                | Some e \<Rightarrow> if e = [] then v0
                            else v0 @ '', error='' @ [CHR 0x22] @ e @ [CHR 0x22])
      in case errorDescription of
           None \<Rightarrow> v1
         | Some d \<Rightarrow> if d = [] then v1
                     else v1 @ '', error_description='' @ [CHR 0x22] @ d @ [CHR 0x22])"

text \<open>
  \<open>handleGeneralError\<close>; \<open>hsent\<close> is \<open>res.headersSent\<close>. With headers sent the error
  goes on to the default handler of Express, which writes no body of its own.
\<close>

definition handleGeneralError :: "Config \<Rightarrow> bool \<Rightarrow> js_error \<Rightarrow> effect list" where
  "handleGeneralError cfg hsent err =
     (if hsent then []
      else [SendError 500 ''server_error''
              (if nodeEnv cfg = ''development'' then err_message err
               else Some ''An internal server error occurred'')])"

text \<open>\<open>handleAuthError\<close>, with \<open>next(err)\<close> leading to \<open>handleGeneralError\<close>.\<close>

definition handleAuthError :: "Config \<Rightarrow> bool \<Rightarrow> js_error \<Rightarrow> effect list" where
  "handleAuthError cfg hsent err =
     (if hsent then handleGeneralError cfg hsent err
      else if err_code err = Some ''ERR_JWT_EXPIRED''
              \<or> (case err_message err of None \<Rightarrow> False | Some m \<Rightarrow> includesStr m ''expired'') then
        [SetHeader ''WWW-Authenticate''
           (buildWwwAuthenticateHeader cfg (Some ''invalid_token'') (Some ''Token expired'')),
         SendError 401 ''invalid_token'' (Some ''The access token has expired'')]
      else if err_name err = ''UnauthorizedError''
              \<or> err_code err = Some ''ERR_JWT_INVALID''
              \<or> err_code err = Some ''ERR_JWS_INVALID'' then
        [SetHeader ''WWW-Authenticate''
           (buildWwwAuthenticateHeader cfg (Some ''invalid_token'') None),
         SendError 401 ''invalid_token''
           (Some ''The access token is malformed or signature verification failed'')]
      else if err_code err = Some ''credentials_required'' then
        [SetHeader ''WWW-Authenticate'' (buildWwwAuthenticateHeader cfg None None),
         SendError 401 ''invalid_request'' (Some ''Authorization header is required'')]
      else handleGeneralError cfg hsent err)"

text \<open>
  What is not fixed by the sources: whether Express hands the rejection of an
  \<open>async\<close> handler to the error handlers (version 5 does, version 4 does not, and then
  nothing answers), the message the engine gives the \<open>TypeError\<close> of a property read
  on \<open>undefined\<close>, and the error object with which the library rejects.
\<close>

record platform =
  forwardsRejections :: bool
  derefMessage :: string
  libraryError :: js_error

fun errorObject :: "platform \<Rightarrow> js_exception \<Rightarrow> js_error" where
  "errorObject pf TypeError =
     \<lparr> err_name = ''TypeError'', err_code = None, err_message = Some (derefMessage pf) \<rparr>"
| "errorObject pf SdkError = libraryError pf"
| "errorObject pf RangeError = \<lparr> err_name = ''RangeError'', err_code = None, err_message = None \<rparr>"
| "errorObject pf EvalError = \<lparr> err_name = ''EvalError'', err_code = None, err_message = None \<rparr>"

text \<open>A handler followed by the error handlers of the app.\<close>

definition withErrorHandlers :: "platform \<Rightarrow> Config \<Rightarrow> bool \<Rightarrow> HandlerResult \<Rightarrow> HandlerResult" where
  "withErrorHandlers pf cfg hsent r =
     (case rejected r of
        None \<Rightarrow> r
      | Some e \<Rightarrow>
          if forwardsRejections pf
          then r\<lparr> effects := effects r @ handleAuthError cfg hsent (errorObject pf e) \<rparr>
          else r)"

text \<open>
  The route \<open>GET /sse\<close>: the handler and, when it rejects, the error handlers. With a
  truthy \<open>sessionId\<close> the handler has sent nothing when it rejects.
\<close>

definition sse_get_route ::
  "platform \<Rightarrow> Config \<Rightarrow> sdk \<Rightarrow> handle \<Rightarrow> string \<Rightarrow> transports \<Rightarrow> HttpRequest \<Rightarrow> HandlerResult" where
  "sse_get_route pf cfg lib fresh newId ts req =
     withErrorHandlers pf cfg
       (if truthy (query_sessionId req) then False else connectSentHeaders lib fresh)
       (get_sse lib fresh newId ts req)"

text \<open>
  The order of registration and connection in a trace: every \<open>Register\<close> of a handle
  comes after the \<open>Connected\<close> of that handle.
\<close>

fun registeredAfterConnect :: "handle list \<Rightarrow> effect list \<Rightarrow> bool" where
  "registeredAfterConnect ready [] = True"
| "registeredAfterConnect ready (Connected h # es) = registeredAfterConnect (h # ready) es"
| "registeredAfterConnect ready (Register sid h # es) =
     (h \<in> set ready \<and> registeredAfterConnect ready es)"
| "registeredAfterConnect ready (e # es) = registeredAfterConnect ready es"

section \<open>The resumable event log\<close>

text \<open>
  Modelled from the spec: the event store of the Streamable HTTP variant is
  \<open>InMemoryEventStore\<close> of the protocol library; \<open>streamableHttp.ts\<close> only constructs
  it and hands it to the transport, and its code is not among the sources. The contract
  of the spec (4.3): \<open>append(sessionId, payload)\<close> gives the entry the next sequence
  number of that session, starting at 1 and without gaps.
\<close>

type_synonym 'p event_log = "string \<Rightarrow> (nat \<times> 'p) list"

definition appendEvent :: "string \<Rightarrow> 'p \<Rightarrow> 'p event_log \<Rightarrow> nat \<times> 'p event_log" where
  "appendEvent sid payload store =
     (let n = Suc (length (store sid)) in (n, store(sid := store sid @ [(n, payload)])))"

text \<open>
  Modelled from the spec: \<open>replay(sessionId, afterSequenceNumber)\<close> returns the entries of
  the session whose sequence number is strictly greater than the marker, in log order
  (4.3); the code of the event store is not among the sources.
\<close>

definition replay :: "string \<Rightarrow> nat \<Rightarrow> 'p event_log \<Rightarrow> (nat \<times> 'p) list" where
  "replay sid after store = filter (\<lambda>(n, payload). after < n) (store sid)"

text \<open>A sequence of appends, to any sessions, from the left.\<close>

fun appendAll :: "(string \<times> 'p) list \<Rightarrow> 'p event_log \<Rightarrow> 'p event_log" where
  "appendAll [] store = store"
| "appendAll ((sid, payload) # rest) store = appendAll rest (snd (appendEvent sid payload store))"

definition emptyLog :: "'p event_log" where
  "emptyLog = (\<lambda>sid. [])"

text \<open>The payloads appended to one session, in order.\<close>

definition payloadsOf :: "string \<Rightarrow> (string \<times> 'p) list \<Rightarrow> 'p list" where
  "payloadsOf sid evs = map snd (filter (\<lambda>(s, payload). s = sid) evs)"

section \<open>Concrete inputs\<close>

text \<open>
  A runtime used to evaluate the definitions on concrete inputs. Its \<open>String\<close> follows
  JavaScript on \<open>undefined\<close>, \<open>null\<close>, booleans, strings, whole numbers below
  \<open>10^21\<close> in magnitude, and on arrays and objects built from these: an array joins
  its elements with commas, \<open>null\<close> elements giving nothing, an object gives
  \<open>[object Object]\<close>, and the conversion throws for an object with a property
  \<open>toString\<close> of its own, which is never callable in a JSON value. Other numbers are
  outside this runtime; it writes their floor.
\<close>

definition showInt :: "int \<Rightarrow> string" where
  "showInt i = (if i < 0 then ''-'' @ showNat (nat (- i)) else showNat (nat i))"

fun demoString :: "json \<Rightarrow> string option" where
  "demoString JNull = Some ''null''"
| "demoString (JBool b) = Some (if b then ''true'' else ''false'')"
| "demoString (JNum q) = Some (showInt \<lfloor>q\<rfloor>)"
| "demoString (JStr s) = Some s"
| "demoString (JArr xs) =
     (let parts = map (\<lambda>x. if x = JNull then Some [] else demoString x) xs in
      if list_all (\<lambda>p. p \<noteq> None) parts
      then Some (join '','' (map (\<lambda>p. case p of Some t \<Rightarrow> t | None \<Rightarrow> []) parts))
      else None)"
| "demoString (JObj members) =
     (if map_of members ''toString'' = None then Some ''[object Object]'' else None)"

definition demoRuntime :: runtime where
  "demoRuntime =
     \<lparr> String_js = (\<lambda>v. case v of None \<Rightarrow> Some ''undefined'' | Some j \<Rightarrow> demoString j),
       evalFunction = (\<lambda>e. if e = ''2+2'' then Some ''4'' else None),
       toLocaleString = (\<lambda>tz. if tz = ''UTC'' then Some ''1/1/2025, 12:00:00 AM'' else None),
       randomFloor = (\<lambda>n k. int (k div 2)),
       JSON_stringify = (\<lambda>v. ''{}''),
       stringifyResult = (\<lambda>r. ''{}'') \<rparr>"

text \<open>
  A client that asks for one \<open>calculate\<close> call in every round, and arguments whose
  \<open>maxIterations\<close> is not an integer.
\<close>

definition toolUseClient :: client where
  "toolUseClient n req =
     Some \<lparr> res_stopReason = Some ''toolUse'',
            res_content = Array [ToolUseContent ''call-1'' ''calculate'' [(''expression'', JStr ''2+2'')]] \<rparr>"

definition fractionalArgs :: Args where
  "fractionalArgs =
     \<lparr> prompt = ''What is 2+2?'', maxTokens = 1000, systemPrompt = None,
       includeTools = True, toolChoice = ModeAuto, maxIterations = 5 / 2 \<rparr>"

definition zeroArgs :: Args where
  "zeroArgs =
     \<lparr> prompt = ''What is 2+2?'', maxTokens = 1000, systemPrompt = None,
       includeTools = True, toolChoice = ModeRequired, maxIterations = 0 \<rparr>"

text \<open>
  The scenario of the spec: the first round asks for two tools, the second round answers
  in text.
\<close>

definition scenarioArgs :: Args where
  "scenarioArgs =
     \<lparr> prompt = ''What is 2+2 and the weather in Paris?'', maxTokens = 1000,
       systemPrompt = None, includeTools = True, toolChoice = ModeAuto, maxIterations = 3 \<rparr>"



definition noSampling :: ClientCapabilities where
  "noSampling = \<lparr> sampling = None \<rparr>"

text \<open>
  A protocol library whose \<open>connect\<close> resolves and whose \<open>handleRequest\<close> initialises
  the session \<open>s1\<close>, and some requests.
\<close>

definition initSdk :: sdk where
  "initSdk =
     \<lparr> connect = (\<lambda>h. True),
       connectSentHeaders = (\<lambda>h. False),
       handleRequest = (\<lambda>h req. \<lparr> initializedAs = Some ''s1'', closed = False,
                                     threw = False, headersSent = True \<rparr>),
       sessionIdOf = (\<lambda>h. Some ''s1'') \<rparr>"

text \<open>
  An Express that hands rejections to the error handlers, with the message of the
  engine for a property read on \<open>undefined\<close>, and a production configuration.
\<close>

definition demoPlatform :: platform where
  "demoPlatform =
     \<lparr> forwardsRejections = True,
       derefMessage = ''Cannot read properties of undefined (reading '' @ [CHR 0x27] @
                      ''sessionId'' @ [CHR 0x27] @ '')'',
       libraryError = \<lparr> err_name = ''Error'', err_code = None,
                        err_message = Some ''Connection closed'' \<rparr> \<rparr>"

definition demoConfig :: Config where
  "demoConfig = \<lparr> mcpServerUrl = ''http://localhost:3001'', nodeEnv = ''production'' \<rparr>"

definition emptyHeaderRequest :: HttpRequest where
  "emptyHeaderRequest = \<lparr> mcp_session_id = Some [], query_sessionId = None \<rparr>"

definition unknownHeaderRequest :: HttpRequest where
  "unknownHeaderRequest = \<lparr> mcp_session_id = Some ''nope'', query_sessionId = None \<rparr>"

definition emptyQueryRequest :: HttpRequest where
  "emptyQueryRequest = \<lparr> mcp_session_id = None, query_sessionId = Some [] \<rparr>"

definition unknownQueryRequest :: HttpRequest where
  "unknownQueryRequest = \<lparr> mcp_session_id = None, query_sessionId = Some ''nope'' \<rparr>"

definition noSessionRequest :: HttpRequest where
  "noSessionRequest = \<lparr> mcp_session_id = None, query_sessionId = None \<rparr>"

definition oneSession :: transports where
  "oneSession = [''s0'' \<mapsto> 7]"

section \<open>Properties of the tool executor\<close>

lemma executeMockTool_calculate_cases:
  "fst (executeMockTool rt n ''calculate'' inp) =
     (case String_js rt (map_of inp ''expression'') of
        None \<Rightarrow> ''Error: Could not evaluate expression''
      | Some expr \<Rightarrow>
          if \<not> validExpression expr
          then ''Error: Invalid expression. Only basic math operations allowed.''
          else case evalFunction rt expr of
                 None \<Rightarrow> ''Error: Could not evaluate expression''
               | Some r \<Rightarrow> ''Result: '' @ r)"
  by (simp add: executeMockTool_def calculateTry_def split: option.split)

text \<open>
  C7. For every input of the \<open>calculate\<close> tool, \<open>executeMockTool\<close> returns a text and
  tests the expression against the character class (digits, \<open>+ - * / %\<close>, parentheses,
  decimal points, whitespace) before evaluating it: when the test fails the answer is the
  invalid-expression marker whatever the evaluator would do (the evaluator is not
  consulted); when the test passes and the evaluation throws, the answer is the
  could-not-evaluate marker; otherwise it is \<open>Result: \<close> followed by the value. When
  the conversion of the input to a string throws, the answer is the could-not-evaluate
  marker as well. No exception of the \<open>try\<close> block escapes.
\<close>

theorem executeMockTool_calculate_validates:
  "(String_js rt (map_of inp ''expression'') = None \<longrightarrow>
      executeMockTool rt n ''calculate'' inp = (''Error: Could not evaluate expression'', n))
   \<and> (\<forall>expr. String_js rt (map_of inp ''expression'') = Some expr \<longrightarrow>
         (\<not> validExpression expr \<longrightarrow>
            (\<forall>ev. executeMockTool (rt\<lparr>evalFunction := ev\<rparr>) n ''calculate'' inp =
               (''Error: Invalid expression. Only basic math operations allowed.'', n)))
       \<and> (validExpression expr \<and> evalFunction rt expr = None \<longrightarrow>
            executeMockTool rt n ''calculate'' inp =
               (''Error: Could not evaluate expression'', n))
       \<and> (\<forall>r. validExpression expr \<and> evalFunction rt expr = Some r \<longrightarrow>
            executeMockTool rt n ''calculate'' inp = (''Result: '' @ r, n)))
   \<and> (\<forall>e. calculateTry rt inp = Inl e \<longrightarrow>
         executeMockTool rt n ''calculate'' inp =
            (''Error: Could not evaluate expression'', n))"
  by (simp add: executeMockTool_def calculateTry_def split: option.split)

theorem executeMockTool_calculate_validates_witness:
  "String_js demoRuntime (map_of [(''expression'', JStr ''alert(1)'')] ''expression'') = Some ''alert(1)''
   \<and> \<not> validExpression ''alert(1)''
   \<and> executeMockTool (demoRuntime\<lparr>evalFunction := (\<lambda>e. Some ''pwned'')\<rparr>) 0 ''calculate''
        [(''expression'', JStr ''alert(1)'')] =
        (''Error: Invalid expression. Only basic math operations allowed.'', 0)
   \<and> String_js demoRuntime (map_of [(''expression'', JStr ''(1)(2)'')] ''expression'') = Some ''(1)(2)''
   \<and> validExpression ''(1)(2)''
   \<and> evalFunction demoRuntime ''(1)(2)'' = None
   \<and> executeMockTool demoRuntime 0 ''calculate'' [(''expression'', JStr ''(1)(2)'')] =
        (''Error: Could not evaluate expression'', 0)
   \<and> String_js demoRuntime (map_of [(''expression'', JStr ''2+2'')] ''expression'') = Some ''2+2''
   \<and> validExpression ''2+2''
   \<and> evalFunction demoRuntime ''2+2'' = Some ''4''
   \<and> executeMockTool demoRuntime 0 ''calculate'' [(''expression'', JStr ''2+2'')] =
        (''Result: 4'', 0)
   \<and> String_js demoRuntime (map_of [(''expression'', JObj [(''toString'', JNull)])] ''expression'') = None
   \<and> executeMockTool demoRuntime 0 ''calculate'' [(''expression'', JObj [(''toString'', JNull)])] =
        (''Error: Could not evaluate expression'', 0)
   \<and> calculateTry demoRuntime [(''expression'', JStr ''(1)(2)'')] = Inl EvalError"
proof -
  have s1: "String_js demoRuntime (map_of [(''expression'', JStr ''alert(1)'')] ''expression'') = Some ''alert(1)''"
    and s2: "String_js demoRuntime (map_of [(''expression'', JStr ''(1)(2)'')] ''expression'') = Some ''(1)(2)''"
    and s3: "String_js demoRuntime (map_of [(''expression'', JStr ''2+2'')] ''expression'') = Some ''2+2''"
    and s4: "String_js demoRuntime (map_of [(''expression'', JObj [(''toString'', JNull)])] ''expression'') = None"
    by (simp_all add: demoRuntime_def)
  have v1: "\<not> validExpression ''alert(1)''"
    by (simp add: validExpression_def allowedChar_def isDigit_def isWhitespace_def)
  have v2: "validExpression ''(1)(2)''"
    by (simp add: validExpression_def allowedChar_def isDigit_def isWhitespace_def)
  have v3: "validExpression ''2+2''"
    by (simp add: validExpression_def allowedChar_def isDigit_def isWhitespace_def)
  have e2: "evalFunction demoRuntime ''(1)(2)'' = None"
    and e3: "evalFunction demoRuntime ''2+2'' = Some ''4''"
    by (simp_all add: demoRuntime_def)
  have c2: "calculateTry demoRuntime [(''expression'', JStr ''(1)(2)'')] = Inl EvalError"
    using s2 v2 e2 by (simp add: calculateTry_def)
  note T1 = executeMockTool_calculate_validates
      [of demoRuntime "[(''expression'', JStr ''alert(1)'')]" 0]
  note T2 = executeMockTool_calculate_validates
      [of demoRuntime "[(''expression'', JStr ''(1)(2)'')]" 0]
  note T3 = executeMockTool_calculate_validates
      [of demoRuntime "[(''expression'', JStr ''2+2'')]" 0]
  note T4 = executeMockTool_calculate_validates
      [of demoRuntime "[(''expression'', JObj [(''toString'', JNull)])]" 0]
  from T1 s1 v1 have r1: "executeMockTool (demoRuntime\<lparr>evalFunction := (\<lambda>e. Some ''pwned'')\<rparr>) 0 ''calculate''
        [(''expression'', JStr ''alert(1)'')] =
        (''Error: Invalid expression. Only basic math operations allowed.'', 0)"
    by blast
  from T2 s2 v2 e2 have r2: "executeMockTool demoRuntime 0 ''calculate'' [(''expression'', JStr ''(1)(2)'')] =
        (''Error: Could not evaluate expression'', 0)"
    by blast
  from T3 s3 v3 e3 have r3: "executeMockTool demoRuntime 0 ''calculate'' [(''expression'', JStr ''2+2'')] =
        (''Result: '' @ ''4'', 0)"
    by blast
  from T4 s4 have r4: "executeMockTool demoRuntime 0 ''calculate'' [(''expression'', JObj [(''toString'', JNull)])] =
        (''Error: Could not evaluate expression'', 0)"
    by blast
  from r3 have r3': "executeMockTool demoRuntime 0 ''calculate'' [(''expression'', JStr ''2+2'')] =
        (''Result: 4'', 0)"
    by simp
  from s1 v1 r1 s2 v2 e2 r2 s3 v3 e3 r3' s4 r4 c2 show ?thesis by (intro conjI)
qed

text \<open>
  C8. For every tool name outside \<open>get_weather\<close>, \<open>calculate\<close>, \<open>get_time\<close> and every
  input, \<open>executeMockTool\<close> returns the text \<open>Unknown tool: \<close> followed by the name, and
  draws no random number.
\<close>

theorem executeMockTool_unknown:
  "name \<notin> {''get_weather'', ''calculate'', ''get_time''} \<Longrightarrow>
   executeMockTool rt n name inp = (''Unknown tool: '' @ name, n)"
  by (simp add: executeMockTool_def)

theorem executeMockTool_unknown_witness:
  "''launch'' \<notin> {''get_weather'', ''calculate'', ''get_time''}
   \<and> executeMockTool demoRuntime 7 ''launch'' [(''x'', JNull)] = (''Unknown tool: launch'', 7)"
proof -
  have h: "''launch'' \<notin> {''get_weather'', ''calculate'', ''get_time''}" by simp
  show ?thesis
    using h executeMockTool_unknown [OF h, of demoRuntime 7 "[(''x'', JNull)]"] by simp
qed


section \<open>Properties of the agent loop\<close>

text \<open>
  Handling a result never touches the list of sent requests, and the requests the loop
  sends from iteration \<open>i\<close> on are \<open>buildRequest a (i + k)\<close> for consecutive \<open>k\<close>,
  each a round that the loop test allowed.
\<close>

lemma sent_endConversation: "sent (snd (endConversation ir r st)) = sent st"
  by (simp add: endConversation_def)

lemma sent_handleResult: "sent (snd (handleResult rt i r st)) = sent st"
  by (simp add: handleResult_def endConversation_def Let_def split: prod.split)

lemma agentLoop_stop: "\<not> of_nat i < maxIterations a \<Longrightarrow> agentLoop rt cl a i st = st"
  by simp

lemma agentLoop_sent:
  "\<exists>reqs. sent (agentLoop rt cl a i st) = sent st @ reqs
     \<and> (reqs = [] \<or> of_nat (i + length reqs - 1) < maxIterations a)
     \<and> (\<forall>k<length reqs. \<exists>h. reqs ! k = buildRequest a (i + k) h)"
proof (induction rt cl a i st rule: agentLoop.induct)
  case (1 rt cl a i st)
  show ?case
  proof (cases "of_nat i < maxIterations a")
    case False
    then show ?thesis by simp
  next
    case lt: True
    define request where "request = buildRequest a i (conversationHistory st)"
    define st1 where "st1 = st\<lparr> sent := sent st @ [request] \<rparr>"
    show ?thesis
    proof (cases "cl (length (sent st)) request")
      case None
      then have "sent (agentLoop rt cl a i st) = sent st @ [request]"
        using lt by (simp add: request_def Let_def)
      moreover have "\<forall>k<length [request]. \<exists>h. [request] ! k = buildRequest a (i + k) h"
        by (auto simp: request_def)
      moreover have "of_nat (i + length [request] - 1) < maxIterations a" using lt by simp
      ultimately show ?thesis by blast
    next
      case (Some result)
      obtain fl st2 where hr: "handleResult rt i result st1 = (fl, st2)"
        by (cases "handleResult rt i result st1")
      have s2: "sent st2 = sent st @ [request]"
        using sent_handleResult [of rt i result st1] hr by (simp add: st1_def)
      show ?thesis
      proof (cases fl)
        case Break
        then have "sent (agentLoop rt cl a i st) = sent st @ [request]"
          using lt Some hr s2 by (simp add: request_def [symmetric] st1_def [symmetric] Let_def)
        moreover have "\<forall>k<length [request]. \<exists>h. [request] ! k = buildRequest a (i + k) h"
          by (auto simp: request_def)
        moreover have "of_nat (i + length [request] - 1) < maxIterations a" using lt by simp
        ultimately show ?thesis by blast
      next
        case Continue
        have eq: "agentLoop rt cl a i st = agentLoop rt cl a (Suc i) st2"
          using lt Some hr Continue
          by (simp add: request_def [symmetric] st1_def [symmetric] Let_def)
        from "1.IH" [OF lt request_def st1_def Some hr [symmetric] Continue]
        obtain reqs where r: "sent (agentLoop rt cl a (Suc i) st2) = sent st2 @ reqs"
          "reqs = [] \<or> of_nat (Suc i + length reqs - 1) < maxIterations a"
          "\<forall>k<length reqs. \<exists>h. reqs ! k = buildRequest a (Suc i + k) h"
          by blast
        have a1: "sent (agentLoop rt cl a i st) = sent st @ (request # reqs)"
          using eq r(1) s2 by simp
        have a2: "of_nat (i + length (request # reqs) - 1) < maxIterations a"
          using r(2) lt by (cases reqs) auto
        have a3: "\<forall>k<length (request # reqs). \<exists>h. (request # reqs) ! k = buildRequest a (i + k) h"
        proof (intro allI impI)
          fix k assume "k < length (request # reqs)"
          then show "\<exists>h. (request # reqs) ! k = buildRequest a (i + k) h"
            using r(3) by (cases k) (auto simp: request_def)
        qed
        from a1 a2 a3 show ?thesis by blast
      qed
    qed
  qed
qed

text \<open>
  When \<open>maxIterations\<close> is a whole number \<open>M \<ge> 1\<close>, at most \<open>M\<close> requests are sent,
  and the request of round \<open>M\<close>, when it is sent, has neither \<open>tools\<close> nor
  \<open>toolChoice\<close>, whatever mode the caller chose and whatever the client answers.
\<close>

lemma agentLoop_integer_bound:
  assumes M: "1 \<le> M" and mi: "maxIterations a = of_nat M"
  shows "length (sent (runAgentLoop rt cl a)) \<le> M
       \<and> (M \<le> length (sent (runAgentLoop rt cl a)) \<longrightarrow>
            tools (sent (runAgentLoop rt cl a) ! (M - 1)) = None
          \<and> req_toolChoice (sent (runAgentLoop rt cl a) ! (M - 1)) = None)"
proof -
  obtain reqs where r: "sent (runAgentLoop rt cl a) = reqs"
    "reqs = [] \<or> of_nat (length reqs - 1) < maxIterations a"
    "\<forall>k<length reqs. \<exists>h. reqs ! k = buildRequest a k h"
    using agentLoop_sent [of rt cl a 0 "initialState a"]
    by (auto simp: runAgentLoop_def initialState_def)
  have len: "length reqs \<le> M"
  proof (cases "reqs = []")
    case True
    then show ?thesis by simp
  next
    case False
    with r(2) have "(of_nat (length reqs - 1) :: rat) < of_nat M" by (simp add: mi)
    then have "length reqs - 1 < M" by (simp only: of_nat_less_iff)
    then show ?thesis by linarith
  qed
  have last: "tools (reqs ! (M - 1)) = None \<and> req_toolChoice (reqs ! (M - 1)) = None"
    if "M \<le> length reqs"
  proof -
    from that M have "M - 1 < length reqs" by linarith
    with r(3) obtain h where h: "reqs ! (M - 1) = buildRequest a (M - 1) h" by blast
    have li: "lastIteration a (M - 1)"
      using M by (simp add: lastIteration_def mi of_nat_diff)
    show ?thesis unfolding h buildRequest_def using li by simp
  qed
  from len last show ?thesis by (simp add: r(1))
qed

text \<open>
  C1. With \<open>includeTools\<close> and \<open>maxIterations = M \<ge> 1\<close> the loop is to send at most
  \<open>M\<close> requests and to offer no tools in round \<open>M\<close>. The schema accepts any number,
  and for one that is not whole the code does neither: with \<open>maxIterations = 5/2\<close> and a
  client that asks for a tool in every round, three requests are sent, and every one of
  them carries the tool catalog and the caller's tool choice, since
  \<open>iteration === maxIterations - 1\<close> never holds.
\<close>

theorem fractional_maxIterations_exceeds_bound:
  "includeTools fractionalArgs
   \<and> maxIterations fractionalArgs = 5 / 2
   \<and> length (snd (triggerEnhancedSampling demoRuntime toolUseClient fractionalArgs)) = 3
   \<and> map tools (snd (triggerEnhancedSampling demoRuntime toolUseClient fractionalArgs))
       = [Some sampleTools, Some sampleTools, Some sampleTools]
   \<and> map req_toolChoice (snd (triggerEnhancedSampling demoRuntime toolUseClient fractionalArgs))
       = [Some ModeAuto, Some ModeAuto, Some ModeAuto]"
  by code_simp





lemma showNat_0: "showNat 0 = ''0''"
  by code_simp

text \<open>
  C9. With \<open>includeTools\<close> and \<open>maxIterations \<le> 0\<close> the loop body never runs: no
  sampling request is sent, the per-iteration report is empty, the report says
  \<open>Total Iterations: 0\<close>, and the final response is \<open>No final response\<close>.
\<close>

theorem zero_iterations:
  assumes "includeTools a" and "maxIterations a \<le> 0"
  shows "sent (runAgentLoop rt cl a) = []
       \<and> iterationResults (runAgentLoop rt cl a) = []
       \<and> finalResponse (iterationResults (runAgentLoop rt cl a)) = ''No final response''
       \<and> triggerEnhancedSampling rt cl a =
           (Inr \<lparr> result_text = join [CHR 0x0A]
                    [''=== Enhanced Sampling Agent Loop Result ==='',
                     [],
                     ''Total Iterations: 0'',
                     ''Tool Choice Mode: '' @ modeText (toolChoice a),
                     [],
                     ''--- Iteration Details ---'',
                     [],
                     ''--- Final Response ---'',
                     ''No final response''],
                  isError = False \<rparr>, [])"
proof -
  have "\<not> (of_nat 0 < maxIterations a)" using assms(2) by simp
  then have run: "runAgentLoop rt cl a = initialState a"
    unfolding runAgentLoop_def by (rule agentLoop_stop)
  have fr: "finalResponse [] = ''No final response''"
    by (simp add: finalResponse_def orDefault_def)
  have rep: "reportText rt a [] = join [CHR 0x0A]
                    [''=== Enhanced Sampling Agent Loop Result ==='',
                     [],
                     ''Total Iterations: 0'',
                     ''Tool Choice Mode: '' @ modeText (toolChoice a),
                     [],
                     ''--- Iteration Details ---'',
                     [],
                     ''--- Final Response ---'',
                     ''No final response'']"
    unfolding reportText_def fr by (simp add: showNat_0 del: showNat.simps join.simps)
  show ?thesis
    using assms(1) rep fr
    by (simp add: triggerEnhancedSampling_def run initialState_def del: join.simps)
qed

theorem zero_iterations_witness:
  "includeTools zeroArgs \<and> maxIterations zeroArgs \<le> 0
   \<and> sent (runAgentLoop demoRuntime toolUseClient zeroArgs) = []
   \<and> iterationResults (runAgentLoop demoRuntime toolUseClient zeroArgs) = []
   \<and> finalResponse (iterationResults (runAgentLoop demoRuntime toolUseClient zeroArgs)) = ''No final response''
   \<and> snd (triggerEnhancedSampling demoRuntime toolUseClient zeroArgs) = []"
proof -
  have h1: "includeTools zeroArgs" by (simp add: zeroArgs_def)
  have h2: "maxIterations zeroArgs \<le> 0" by (simp add: zeroArgs_def)
  note z = zero_iterations [OF h1 h2, of demoRuntime toolUseClient]
  have a: "sent (runAgentLoop demoRuntime toolUseClient zeroArgs) = []"
    using z by (rule conjunct1)
  have b: "iterationResults (runAgentLoop demoRuntime toolUseClient zeroArgs) = []"
    using z [THEN conjunct2] by (rule conjunct1)
  have c: "finalResponse (iterationResults (runAgentLoop demoRuntime toolUseClient zeroArgs)) = ''No final response''"
    using z [THEN conjunct2, THEN conjunct2] by (rule conjunct1)
  have d: "snd (triggerEnhancedSampling demoRuntime toolUseClient zeroArgs) = []"
    by (simp only: z [THEN conjunct2, THEN conjunct2, THEN conjunct2] snd_conv)
  from h1 h2 a b c d show ?thesis by (intro conjI)
qed

section \<open>Properties of the resumable event log\<close>

lemma upt_shift_Cons: "[m ..< m + Suc n] = m # [Suc m ..< Suc m + n]"
  by (simp add: upt_conv_Cons del: upt_Suc)

lemma appendAll_session:
  "appendAll evs store sid = store sid @
     zip [Suc (length (store sid)) ..< Suc (length (store sid)) + length (payloadsOf sid evs)]
         (payloadsOf sid evs)"
proof (induction evs arbitrary: store)
  case Nil
  then show ?case by (simp add: payloadsOf_def)
next
  case (Cons e evs)
  obtain s p where e: "e = (s, p)" by (cases e)
  define store' where "store' = snd (appendEvent s p store)"
  have step: "appendAll (e # evs) store = appendAll evs store'"
    by (simp add: e store'_def)
  show ?case
  proof (cases "s = sid")
    case True
    have st: "store' sid = store sid @ [(Suc (length (store sid)), p)]"
      by (simp add: store'_def appendEvent_def Let_def True)
    have ps: "payloadsOf sid (e # evs) = p # payloadsOf sid evs"
      using True e by (simp add: payloadsOf_def)
    have "appendAll (e # evs) store sid = store' sid @
        zip [Suc (length (store' sid)) ..< Suc (length (store' sid)) + length (payloadsOf sid evs)]
          (payloadsOf sid evs)"
      unfolding step by (rule Cons.IH)
    also have "\<dots> = store sid @ ((Suc (length (store sid)), p) #
        zip [Suc (Suc (length (store sid))) ..< Suc (Suc (length (store sid))) + length (payloadsOf sid evs)]
          (payloadsOf sid evs))"
      by (simp add: st del: upt_Suc)
    also have "\<dots> = store sid @
        zip [Suc (length (store sid)) ..< Suc (length (store sid)) + Suc (length (payloadsOf sid evs))]
          (p # payloadsOf sid evs)"
      by (simp only: upt_shift_Cons zip_Cons_Cons)
    finally show ?thesis by (simp only: ps length_Cons)
  next
    case False
    have st: "store' sid = store sid"
      using False by (simp add: store'_def appendEvent_def Let_def)
    have ps: "payloadsOf sid (e # evs) = payloadsOf sid evs"
      using False e by (simp add: payloadsOf_def)
    show ?thesis
      unfolding step ps using Cons.IH [of store'] by (simp only: st)
  qed
qed

lemma filter_numbered:
  "filter (\<lambda>(n, p). k < n) (zip [m ..< m + length ps] ps)
     = zip [max m (Suc k) ..< m + length ps] (drop (Suc k - m) ps)"
proof (induction ps arbitrary: m)
  case Nil
  then show ?case by simp
next
  case (Cons x xs)
  have z: "zip [m ..< m + length (x # xs)] (x # xs) = (m, x) # zip [Suc m ..< Suc m + length xs] xs"
    by (simp only: length_Cons upt_shift_Cons zip_Cons_Cons)
  show ?case
  proof (cases "k < m")
    case True
    then have m1: "max (Suc m) (Suc k) = Suc m" and m2: "max m (Suc k) = m"
      and d1: "Suc k - Suc m = 0" and d2: "Suc k - m = 0"
      by simp_all
    have "filter (\<lambda>(n, p). k < n) (zip [m ..< m + length (x # xs)] (x # xs))
        = (m, x) # zip [Suc m ..< Suc m + length xs] xs"
      unfolding z using True Cons.IH [of "Suc m"] by (simp add: m1 d1 del: upt_Suc)
    also have "\<dots> = zip [m ..< m + length (x # xs)] (x # xs)"
      by (simp only: z)
    finally show ?thesis by (simp only: m2 d2 drop_0)
  next
    case False
    then have m1: "max (Suc m) (Suc k) = Suc k" and m2: "max m (Suc k) = Suc k"
      and d2: "Suc k - m = Suc (k - m)" and d1: "Suc k - Suc m = k - m"
      by simp_all
    have "filter (\<lambda>(n, p). k < n) (zip [m ..< m + length (x # xs)] (x # xs))
        = zip [Suc k ..< Suc m + length xs] (drop (k - m) xs)"
      unfolding z using False Cons.IH [of "Suc m"] by (simp add: m1 d1 del: upt_Suc)
    then show ?thesis by (simp add: m2 d2 del: upt_Suc)
  qed
qed

text \<open>
  C3. After any sequence of appends, in which the session \<open>sid\<close> received the payloads
  \<open>a1..an\<close> (appends to other sessions may lie between them), \<open>replay\<close> after the
  marker \<open>k\<close> returns exactly \<open>a(k+1)..an\<close> with the sequence numbers
  \<open>k+1..n\<close>: ascending, none twice, none left out (and nothing when \<open>k \<ge> n\<close>).
\<close>

theorem replay_exact:
  "replay sid k (appendAll evs emptyLog)
     = zip [Suc k ..< Suc (length (payloadsOf sid evs))] (drop k (payloadsOf sid evs))
   \<and> sorted_wrt (<) (map fst (replay sid k (appendAll evs emptyLog)))
   \<and> map snd (replay sid k (appendAll evs emptyLog)) = drop k (payloadsOf sid evs)"
proof -
  let ?ps = "payloadsOf sid evs"
  have log: "appendAll evs emptyLog sid = zip [Suc 0 ..< Suc 0 + length ?ps] ?ps"
    using appendAll_session [of evs emptyLog sid] by (simp add: emptyLog_def del: upt_Suc)
  have "replay sid k (appendAll evs emptyLog)
     = zip [max (Suc 0) (Suc k) ..< Suc 0 + length ?ps] (drop (Suc k - Suc 0) ?ps)"
    unfolding replay_def log by (rule filter_numbered)
  then have eq: "replay sid k (appendAll evs emptyLog) = zip [Suc k ..< Suc (length ?ps)] (drop k ?ps)"
    by (simp del: upt_Suc)
  have len: "length [Suc k ..< Suc (length ?ps)] = length (drop k ?ps)"
    by (simp del: upt_Suc)
  have f: "map fst (replay sid k (appendAll evs emptyLog)) = [Suc k ..< Suc (length ?ps)]"
    unfolding eq using len by (rule map_fst_zip)
  have s: "map snd (replay sid k (appendAll evs emptyLog)) = drop k ?ps"
    unfolding eq using len by (rule map_snd_zip)
  have "sorted_wrt (<) [Suc k ..< Suc (length ?ps)]"
    by (rule sorted_wrt_upt)
  with eq f s show ?thesis by (simp del: upt_Suc)
qed

theorem replay_exact_witness:
  "replay ''a'' 1 (appendAll [(''a'', ''x''), (''b'', ''u''), (''a'', ''y''), (''a'', ''z'')] emptyLog)
     = [(2, ''y''), (3, ''z'')]
   \<and> replay ''a'' 3 (appendAll [(''a'', ''x''), (''b'', ''u''), (''a'', ''y''), (''a'', ''z'')] emptyLog)
     = []"
  using replay_exact [of "''a''" 1 "[(''a'', ''x''), (''b'', ''u''), (''a'', ''y''), (''a'', ''z'')]"]
    replay_exact [of "''a''" 3 "[(''a'', ''x''), (''b'', ''u''), (''a'', ''y''), (''a'', ''z'')]"]
  by (simp add: payloadsOf_def upt_conv_Cons del: upt_Suc)

section \<open>Properties of the transports\<close>

text \<open>
  C4. In the Streamable HTTP variant a POST whose session header is non-empty and not in
  the \<open>transports\<close> map, and a GET or DELETE whose session header is absent, empty or
  not in the map, is answered by the handler with status 400 and a JSON body with
  \<open>jsonrpc: "2.0"\<close> and
  \<open>error: {code: -32000, message: "Bad Request: No valid session ID provided"}\<close>;
  the map is left as it was, the handler does nothing else and does not throw.
\<close>

theorem unknown_session_rejected:
  "(\<forall>s. mcp_session_id req = Some s \<and> s \<noteq> [] \<and> ts s = None \<longrightarrow>
        new_transports (post_mcp lib fresh ts req) = ts
      \<and> rejected (post_mcp lib fresh ts req) = None
      \<and> (\<exists>b. effects (post_mcp lib fresh ts req) = [SendJson 400 b]
             \<and> jsonrpc b = ''2.0'' \<and> error_code b = - 32000
             \<and> error_message b = ''Bad Request: No valid session ID provided''))
   \<and> (mcp_session_id req = None \<or> mcp_session_id req = Some []
        \<or> (\<exists>s. mcp_session_id req = Some s \<and> ts s = None) \<longrightarrow>
        new_transports (get_mcp lib ts req) = ts
      \<and> rejected (get_mcp lib ts req) = None
      \<and> (\<exists>b. effects (get_mcp lib ts req) = [SendJson 400 b]
             \<and> jsonrpc b = ''2.0'' \<and> error_code b = - 32000
             \<and> error_message b = ''Bad Request: No valid session ID provided'')
      \<and> new_transports (delete_mcp lib ts req) = ts
      \<and> rejected (delete_mcp lib ts req) = None
      \<and> (\<exists>b. effects (delete_mcp lib ts req) = [SendJson 400 b]
             \<and> jsonrpc b = ''2.0'' \<and> error_code b = - 32000
             \<and> error_message b = ''Bad Request: No valid session ID provided''))"
  by (auto simp: post_mcp_def get_mcp_def delete_mcp_def truthy_def getTransport_def
      badRequest_def Let_def)

theorem unknown_session_rejected_witness:
  "mcp_session_id unknownHeaderRequest = Some ''nope'' \<and> ''nope'' \<noteq> [] \<and> oneSession ''nope'' = None
   \<and> mcp_session_id noSessionRequest = None
   \<and> new_transports (post_mcp initSdk 1 oneSession unknownHeaderRequest) = oneSession
   \<and> map statusOf (effects (post_mcp initSdk 1 oneSession unknownHeaderRequest)) = [Some 400]
   \<and> new_transports (get_mcp initSdk oneSession unknownHeaderRequest) = oneSession
   \<and> map statusOf (effects (get_mcp initSdk oneSession unknownHeaderRequest)) = [Some 400]
   \<and> new_transports (delete_mcp initSdk oneSession noSessionRequest) = oneSession
   \<and> map statusOf (effects (delete_mcp initSdk oneSession noSessionRequest)) = [Some 400]"
proof -
  have h: "mcp_session_id unknownHeaderRequest = Some ''nope'' \<and> ''nope'' \<noteq> [] \<and> oneSession ''nope'' = None"
    by (simp add: unknownHeaderRequest_def oneSession_def)
  have n: "mcp_session_id noSessionRequest = None"
    by (simp add: noSessionRequest_def)
  note U = unknown_session_rejected [of unknownHeaderRequest oneSession initSdk 1]
  note N = unknown_session_rejected [of noSessionRequest oneSession initSdk 1]
  from U h obtain b1 where p: "new_transports (post_mcp initSdk 1 oneSession unknownHeaderRequest) = oneSession"
    "effects (post_mcp initSdk 1 oneSession unknownHeaderRequest) = [SendJson 400 b1]"
    by blast
  from U h obtain b2 where g: "new_transports (get_mcp initSdk oneSession unknownHeaderRequest) = oneSession"
    "effects (get_mcp initSdk oneSession unknownHeaderRequest) = [SendJson 400 b2]"
    by blast
  from N n obtain b3 where d: "new_transports (delete_mcp initSdk oneSession noSessionRequest) = oneSession"
    "effects (delete_mcp initSdk oneSession noSessionRequest) = [SendJson 400 b3]"
    by blast
  from h n p g d show ?thesis by simp
qed

text \<open>
  A POST whose session header is present but empty is not rejected: the handler takes it
  for a request without a session, creates and connects a new transport and hands the
  request to it, and the map gains the session the transport initialises.
\<close>

theorem post_empty_header_counterexample:
  "mcp_session_id emptyHeaderRequest = Some []
   \<and> (Map.empty :: transports) [] = None
   \<and> effects (post_mcp initSdk 1 Map.empty emptyHeaderRequest) =
       [CreateServer, NewTransport 1, SetOnClose 1, ConnectStart 1, Connected 1,
        HandleRequest 1, Register ''s1'' 1]
   \<and> new_transports (post_mcp initSdk 1 Map.empty emptyHeaderRequest) ''s1'' = Some 1"
  by (simp add: post_mcp_def emptyHeaderRequest_def initSdk_def truthy_def getTransport_def
      handleRequestCaught_def delegate_def Let_def)

lemma registeredAfterConnect_onclose:
  "registeredAfterConnect ready (snd (onclose_mcp lib ts transport))"
  by (simp add: onclose_mcp_def split: option.split)






lemma handleGeneralError_not_400:
  "list_all (\<lambda>e. statusOf e \<noteq> Some 400) (handleGeneralError cfg hsent err)"
  by (simp add: handleGeneralError_def)

lemma handleAuthError_not_400:
  "list_all (\<lambda>e. statusOf e \<noteq> Some 400) (handleAuthError cfg hsent err)"
  by (simp add: handleAuthError_def handleGeneralError_not_400)

text \<open>
  C10. In the SSE variant a GET with a non-empty \<open>sessionId\<close> query parameter creates
  and registers nothing: the map is unchanged and no transport is created, in the handler
  and in the route as a whole. When that identifier is not in the map the handler reads
  \<open>.sessionId\<close> of \<open>undefined\<close>, so it ends with a \<open>TypeError\<close> without having
  answered; and whether or not Express then hands the error to the error handlers of the
  app, and whatever the message of the error, no response with status 400 is sent.
\<close>

theorem sse_get_with_sessionId:
  "(\<forall>s. query_sessionId req = Some s \<and> s \<noteq> [] \<longrightarrow>
       new_transports (get_sse lib fresh newId ts req) = ts
     \<and> effects (get_sse lib fresh newId ts req) = [CreateServer]
     \<and> new_transports (sse_get_route pf cfg lib fresh newId ts req) = ts
     \<and> list_all (\<lambda>e. \<forall>h sid. e \<noteq> NewTransport h \<and> e \<noteq> Register sid h)
          (effects (sse_get_route pf cfg lib fresh newId ts req))
     \<and> (ts s = None \<longrightarrow>
           rejected (get_sse lib fresh newId ts req) = Some TypeError
         \<and> list_all (\<lambda>e. statusOf e \<noteq> Some 400)
             (effects (sse_get_route pf cfg lib fresh newId ts req))))"
proof (intro allI impI)
  fix s
  assume q: "query_sessionId req = Some s \<and> s \<noteq> []"
  then have t: "truthy (query_sessionId req)" by (simp add: truthy_def)
  have g1: "new_transports (get_sse lib fresh newId ts req) = ts"
    and g2: "effects (get_sse lib fresh newId ts req) = [CreateServer]"
    using t by (simp_all add: get_sse_def split: option.split)
  have r1: "new_transports (sse_get_route pf cfg lib fresh newId ts req) = ts"
    using g1 by (simp add: sse_get_route_def withErrorHandlers_def split: option.split)
  have auth: "list_all (\<lambda>e. \<forall>h sid. e \<noteq> NewTransport h \<and> e \<noteq> Register sid h)
      (handleAuthError cfg hsent err)" for hsent err
    by (simp add: handleAuthError_def handleGeneralError_def)
  have r2: "list_all (\<lambda>e. \<forall>h sid. e \<noteq> NewTransport h \<and> e \<noteq> Register sid h)
      (effects (sse_get_route pf cfg lib fresh newId ts req))"
    using g2 auth by (simp add: sse_get_route_def withErrorHandlers_def split: option.split)
  have r3: "rejected (get_sse lib fresh newId ts req) = Some TypeError
      \<and> list_all (\<lambda>e. statusOf e \<noteq> Some 400)
          (effects (sse_get_route pf cfg lib fresh newId ts req))"
    if "ts s = None"
  proof -
    have rj: "rejected (get_sse lib fresh newId ts req) = Some TypeError"
      using t q that by (simp add: get_sse_def getTransport_def)
    have "list_all (\<lambda>e. statusOf e \<noteq> Some 400)
        (effects (sse_get_route pf cfg lib fresh newId ts req))"
      using g2 rj handleAuthError_not_400 [of cfg False "errorObject pf TypeError"] t
      by (simp add: sse_get_route_def withErrorHandlers_def)
    with rj show ?thesis by simp
  qed
  from g1 g2 r1 r2 r3
  show "new_transports (get_sse lib fresh newId ts req) = ts
     \<and> effects (get_sse lib fresh newId ts req) = [CreateServer]
     \<and> new_transports (sse_get_route pf cfg lib fresh newId ts req) = ts
     \<and> list_all (\<lambda>e. \<forall>h sid. e \<noteq> NewTransport h \<and> e \<noteq> Register sid h)
          (effects (sse_get_route pf cfg lib fresh newId ts req))
     \<and> (ts s = None \<longrightarrow>
           rejected (get_sse lib fresh newId ts req) = Some TypeError
         \<and> list_all (\<lambda>e. statusOf e \<noteq> Some 400)
             (effects (sse_get_route pf cfg lib fresh newId ts req)))"
    by blast
qed

theorem sse_get_with_sessionId_witness:
  "query_sessionId unknownQueryRequest = Some ''nope'' \<and> ''nope'' \<noteq> [] \<and> oneSession ''nope'' = None
   \<and> new_transports (get_sse initSdk 1 ''s1'' oneSession unknownQueryRequest) = oneSession
   \<and> effects (get_sse initSdk 1 ''s1'' oneSession unknownQueryRequest) = [CreateServer]
   \<and> rejected (get_sse initSdk 1 ''s1'' oneSession unknownQueryRequest) = Some TypeError
   \<and> new_transports (sse_get_route demoPlatform demoConfig initSdk 1 ''s1'' oneSession unknownQueryRequest)
       = oneSession
   \<and> effects (sse_get_route demoPlatform demoConfig initSdk 1 ''s1'' oneSession unknownQueryRequest)
       = [CreateServer, SendError 500 ''server_error'' (Some ''An internal server error occurred'')]
   \<and> effects (sse_get_route (demoPlatform\<lparr> forwardsRejections := False \<rparr>) demoConfig initSdk 1 ''s1''
        oneSession unknownQueryRequest) = [CreateServer]"
proof -
  have h: "query_sessionId unknownQueryRequest = Some ''nope'' \<and> ''nope'' \<noteq> []"
    and n: "oneSession ''nope'' = None"
    by (simp_all add: unknownQueryRequest_def oneSession_def)
  from sse_get_with_sessionId
    [of unknownQueryRequest initSdk 1 "''s1''" oneSession demoPlatform demoConfig] h n
  have a: "new_transports (get_sse initSdk 1 ''s1'' oneSession unknownQueryRequest) = oneSession"
    and b: "effects (get_sse initSdk 1 ''s1'' oneSession unknownQueryRequest) = [CreateServer]"
    and c: "rejected (get_sse initSdk 1 ''s1'' oneSession unknownQueryRequest) = Some TypeError"
    and d: "new_transports (sse_get_route demoPlatform demoConfig initSdk 1 ''s1'' oneSession
              unknownQueryRequest) = oneSession"
    by blast+
  have ex: "\<not> includesStr (derefMessage demoPlatform) ''expired''"
    by code_simp
  have e: "effects (sse_get_route demoPlatform demoConfig initSdk 1 ''s1'' oneSession unknownQueryRequest)
       = [CreateServer, SendError 500 ''server_error'' (Some ''An internal server error occurred'')]"
    using b c ex
    by (simp add: sse_get_route_def withErrorHandlers_def handleAuthError_def
        handleGeneralError_def demoPlatform_def demoConfig_def unknownQueryRequest_def truthy_def)
  have f: "effects (sse_get_route (demoPlatform\<lparr> forwardsRejections := False \<rparr>) demoConfig initSdk 1 ''s1''
        oneSession unknownQueryRequest) = [CreateServer]"
    using b c by (simp add: sse_get_route_def withErrorHandlers_def)
  from h n a b c d e f show ?thesis by (intro conjI) simp_all
qed

text \<open>
  A GET whose \<open>sessionId\<close> parameter is present but empty is taken for one without:
  a transport is created and registered.
\<close>

theorem sse_empty_sessionId_counterexample:
  "query_sessionId emptyQueryRequest = Some []
   \<and> effects (get_sse initSdk 1 ''s1'' Map.empty emptyQueryRequest) =
       [CreateServer, NewTransport 1, Register ''s1'' 1, ConnectStart 1, Connected 1, SetOnClose 1]
   \<and> new_transports (get_sse initSdk 1 ''s1'' Map.empty emptyQueryRequest) ''s1'' = Some 1"
  by (simp add: get_sse_def emptyQueryRequest_def initSdk_def truthy_def)

section \<open>Properties of the registration\<close>

text \<open>
  C6. When the client has not declared the \<open>sampling\<close> capability (or has reported no
  capabilities yet), \<open>registerTriggerEnhancedSamplingTool\<close> leaves the registry as it
  is: the tool is not registered, so no callback of it can run, no loop starts and it
  sends no sampling request.
\<close>

theorem tool_not_registered:
  "(caps = None \<or> (\<exists>c. caps = Some c \<and> sampling c = None)) \<Longrightarrow>
   registerTriggerEnhancedSamplingTool caps reg = reg
   \<and> (reg toolName = None \<longrightarrow>
        invokeTool (registerTriggerEnhancedSamplingTool caps reg) toolName rt cl a = None)"
  by (auto simp: registerTriggerEnhancedSamplingTool_def invokeTool_def Let_def)

theorem tool_not_registered_witness:
  "sampling noSampling = None
   \<and> registerTriggerEnhancedSamplingTool (Some noSampling) Map.empty = Map.empty
   \<and> registerTriggerEnhancedSamplingTool None Map.empty = Map.empty"
proof -
  have h: "sampling noSampling = None" by (simp add: noSampling_def)
  have a: "Some noSampling = None \<or> (\<exists>c. Some noSampling = Some c \<and> sampling c = None)"
    using h by simp
  have b: "(None :: ClientCapabilities option) = None \<or> (\<exists>c. None = Some c \<and> sampling c = None)"
    by simp
  from tool_not_registered [OF a, of Map.empty] tool_not_registered [OF b, of Map.empty] h
  show ?thesis by blast
qed

text \<open>
  A call of the tool by a client without the \<open>sampling\<close> capability gets no result
  from the callback, since there is none: no error result labelled as a capability
  mismatch is produced.
\<close>

theorem no_capability_mismatch_result_counterexample:
  "sampling noSampling = None
   \<and> invokeTool (registerTriggerEnhancedSamplingTool (Some noSampling) Map.empty) toolName
        demoRuntime toolUseClient scenarioArgs = None"
  by (simp add: noSampling_def registerTriggerEnhancedSamplingTool_def invokeTool_def Let_def)

end
